theory Spec2Isabelle
  imports Complex_Main
begin

section \<open>Python values\<close>

text \<open>
  The client moves decoded JSON around without looking at its type, so the values of the
  model are the values \<^verbatim>\<open>response.json()\<close> can produce: \<open>JNull\<close> is Python's
  \<^verbatim>\<open>None\<close>, a finite float is the rational it denotes (Python compares an int and a
  float by their exact values; NaN and the infinities are left out), a dict is an association list
  read with \<open>map_of\<close>, so the first binding of a key is the one that counts. A \<open>string\<close>
  holds one \<open>char\<close> per character of the Python string.
\<close>

datatype json =
    JNull
  | JBool bool
  | JInt int
  | JFloat rat
  | JStr string
  | JList "json list"
  | JObj "(string \<times> json) list"

text \<open>The exceptions of \<^verbatim>\<open>darwin.exceptions\<close> that the client raises, and the built-in ones
  that escape from it. \<open>NotFound\<close> carries what the source passes to it: a URL string in
  \<^verbatim>\<open>Client.get\<close>, a dataset identifier in \<^verbatim>\<open>Client.get_remote_dataset\<close>.
  \<open>Raised\<close> is an exception of the caller's own, raised by an error handler.\<close>

record DatasetIdentifier =
  team_slug :: json
  dataset_slug :: json
  version :: json

datatype str_or_identifier = Str string | Ident DatasetIdentifier

datatype error =
    Unauthorized
  | NotFound str_or_identifier
  | InsufficientStorage
  | InvalidLogin
  | MissingConfig
  | ValueError
  | KeyError string
  | TypeError
  | IndexError
  | Raised string

definition andthen :: "error + 'a \<Rightarrow> ('a \<Rightarrow> error + 'b) \<Rightarrow> error + 'b" where
  "andthen m f = (case m of Inl e \<Rightarrow> Inl e | Inr x \<Rightarrow> f x)"

text \<open>Truth value of a Python value, as \<^verbatim>\<open>not x\<close> and \<^verbatim>\<open>x or y\<close> test it.\<close>

fun py_truthy :: "json \<Rightarrow> bool" where
  "py_truthy JNull = False"
| "py_truthy (JBool b) = b"
| "py_truthy (JInt n) = (n \<noteq> 0)"
| "py_truthy (JFloat q) = (q \<noteq> 0)"
| "py_truthy (JStr s) = (s \<noteq> [])"
| "py_truthy (JList xs) = (xs \<noteq> [])"
| "py_truthy (JObj kv) = (kv \<noteq> [])"

definition py_or :: "json \<Rightarrow> json \<Rightarrow> json" where
  "py_or x y = (if py_truthy x then x else y)"

text \<open>Python's \<^verbatim>\<open>==\<close>: numbers (and booleans, which are the ints 0 and 1) by value, strings
  by content, lists element by element, dicts as mappings, anything else unequal.\<close>

fun num_of :: "json \<Rightarrow> rat option" where
  "num_of (JBool b) = Some (if b then 1 else 0)"
| "num_of (JInt n) = Some (of_int n)"
| "num_of (JFloat q) = Some q"
| "num_of _ = None"

function (sequential) py_eq :: "json \<Rightarrow> json \<Rightarrow> bool" where
  "py_eq JNull JNull = True"
| "py_eq (JStr a) (JStr b) = (a = b)"
| "py_eq (JList xs) (JList ys) = list_all2 py_eq xs ys"
| "py_eq (JObj a) (JObj b) =
     (set (map fst a) = set (map fst b) \<and>
      list_all (\<lambda>k. case map_of a k of
                        None \<Rightarrow> False
                      | Some v \<Rightarrow> (case map_of b k of None \<Rightarrow> False | Some w \<Rightarrow> py_eq v w))
               (map fst a))"
| "py_eq x y = (case num_of x of None \<Rightarrow> False
                | Some p \<Rightarrow> (case num_of y of None \<Rightarrow> False | Some q \<Rightarrow> p = q))"
  by pat_completeness auto
termination
proof (relation "measure (\<lambda>(x, y). size x)")
  show "wf (measure (\<lambda>(x, y). size x))"
    by simp
next
  fix xs ys :: "json list" and z yb
  assume "z \<in> set xs"
  then have "size z < Suc (size_list size xs)"
    by (induction xs) auto
  then show "((z, yb), JList xs, JList ys) \<in> measure (\<lambda>(x, y). size x)"
    by simp
next
  fix a b :: "(string \<times> json) list" and x x2 x2a
  assume "map_of a x = Some x2"
  then have "size x2 < Suc (size_list (size_prod (\<lambda>x. 0) size) a)"
    by (induction a) (auto split: if_splits)
  then show "((x2, x2a), JObj a, JObj b) \<in> measure (\<lambda>(x, y). size x)"
    by simp
qed

text \<open>\<^verbatim>\<open>x[key]\<close> with a string key: only a dict accepts it, and raises KeyError when the
  key is missing.\<close>

fun py_getitem :: "json \<Rightarrow> string \<Rightarrow> error + json" where
  "py_getitem (JObj kv) k = (case map_of kv k of None \<Rightarrow> Inl (KeyError k) | Some v \<Rightarrow> Inr v)"
| "py_getitem _ k = Inl TypeError"

text \<open>\<^verbatim>\<open>for x in v\<close>: a list gives its elements, a string its characters, a dict its keys
  in insertion order; nothing else is iterable. \<^verbatim>\<open>len(v)\<close> counts the same elements.\<close>

fun dict_keys :: "(string \<times> json) list \<Rightarrow> string list" where
  "dict_keys [] = []"
| "dict_keys ((k, v) # kv) = k # filter (\<lambda>k'. k' \<noteq> k) (dict_keys kv)"

fun py_iter :: "json \<Rightarrow> error + json list" where
  "py_iter (JList xs) = Inr xs"
| "py_iter (JStr s) = Inr (map (\<lambda>c. JStr [c]) s)"
| "py_iter (JObj kv) = Inr (map JStr (dict_keys kv))"
| "py_iter _ = Inl TypeError"

fun py_len :: "json \<Rightarrow> error + json" where
  "py_len (JList xs) = Inr (JInt (int (length xs)))"
| "py_len (JStr s) = Inr (JInt (int (length s)))"
| "py_len (JObj kv) = Inr (JInt (int (length (dict_keys kv))))"
| "py_len _ = Inl TypeError"

text \<open>An f-string field \<^verbatim>\<open>{v}\<close> is \<^verbatim>\<open>str(v)\<close>: a string gives itself; for any other
  value the text is what the built-in \<^verbatim>\<open>str\<close> prints, a parameter here.\<close>

definition format_value :: "(json \<Rightarrow> string) \<Rightarrow> json \<Rightarrow> string" where
  "format_value builtin_str v = (case v of JStr s \<Rightarrow> s | _ \<Rightarrow> builtin_str v)"

section \<open>The transport and the other collaborators\<close>

text \<open>A request as \<^verbatim>\<open>requests.get/put/post\<close> receives it, and the part of the response
  that the client reads: \<open>parsed\<close> is what \<^verbatim>\<open>response.json()\<close> returns, \<open>None\<close> when the
  body is not JSON and the call raises ValueError; \<open>body_text\<close> is \<^verbatim>\<open>response.text\<close>.\<close>

datatype verb = GET | PUT | POST

record request =
  verb :: verb
  target :: string
  payload :: "json option"
  headers :: "(string \<times> string) list"

record response =
  status_code :: int
  body_text :: string
  parsed :: "json option"

definition response_json :: "response \<Rightarrow> error + json" where
  "response_json r = (case parsed r of None \<Rightarrow> Inl ValueError | Some j \<Rightarrow> Inr j)"

text \<open>What \<^verbatim>\<open>Config.get_team\<close> returns, by the interface of the configuration
  collaborator: an optional API key and the datasets directory.\<close>

record team_config =
  api_key :: "string option"
  datasets_dir :: string

text \<open>The code that the client calls and that is not part of the three source files:
  \<^verbatim>\<open>darwin.utils.urljoin\<close>, the \<^verbatim>\<open>requests\<close> library, the class \<^verbatim>\<open>darwin.config.Config\<close>
  (\<open>Config_new\<close> is \<^verbatim>\<open>Config(path=None)\<close>; the setters return the configuration they
  have updated), \<^verbatim>\<open>DatasetIdentifier.parse\<close>, \<^verbatim>\<open>os.getenv\<close>, and the path
  \<^verbatim>\<open>Path.home() / ".darwin" / "datasets"\<close> as a string. Every operation below takes
  them as its first argument, and every theorem holds whatever they are.\<close>

record 'cfg externals =
  urljoin :: "json \<Rightarrow> string \<Rightarrow> string"
  requests :: "request \<Rightarrow> response"
  Config_get :: "'cfg \<Rightarrow> string \<Rightarrow> json"
  Config_get_team :: "'cfg \<Rightarrow> json \<Rightarrow> team_config"
  Config_new :: "'cfg"
  Config_set_team :: "'cfg \<Rightarrow> json \<Rightarrow> string \<Rightarrow> string \<Rightarrow> 'cfg"
  Config_set_global :: "'cfg \<Rightarrow> string \<Rightarrow> string \<Rightarrow> 'cfg"
  DatasetIdentifier_parse :: "string \<Rightarrow> error + DatasetIdentifier"
  getenv :: "string \<Rightarrow> string option"
  home_datasets_dir :: string

section \<open>Client (darwin/client.py)\<close>

record 'cfg Client =
  config :: 'cfg
  url :: json
  base_url :: json
  default_team :: json

definition Client_init :: "'cfg externals \<Rightarrow> 'cfg \<Rightarrow> json \<Rightarrow> 'cfg Client" where
  "Client_init X cfg team =
     \<lparr>config = cfg,
      url = Config_get X cfg ''global/api_endpoint'',
      base_url = Config_get X cfg ''global/base_url'',
      default_team = py_or team (Config_get X cfg ''global/default_team'')\<rparr>"

definition get_headers :: "'cfg externals \<Rightarrow> 'cfg Client \<Rightarrow> json \<Rightarrow> (string \<times> string) list" where
  "get_headers X c team =
     (let header = [(''Content-Type'', ''application/json'')];
          team_config = Config_get_team X (config c) (py_or team (default_team c))
      in case api_key team_config of
           None \<Rightarrow> header
         | Some k \<Rightarrow> header @ [(''Authorization'', ''ApiKey '' @ k)])"

text \<open>The call all three operations make:
  \<^verbatim>\<open>requests.<verb>(urljoin(self.url, endpoint), json=payload, headers=self._get_headers(team))\<close>,
  without \<^verbatim>\<open>json\<close> for a GET.\<close>

definition send ::
  "'cfg externals \<Rightarrow> 'cfg Client \<Rightarrow> verb \<Rightarrow> string \<Rightarrow> json option \<Rightarrow> json \<Rightarrow> response" where
  "send X c v endpoint body team =
     requests X \<lparr>verb = v, target = urljoin X (url c) endpoint,
                 payload = body, headers = get_headers X c team\<rparr>"

text \<open>\<^verbatim>\<open>_decode_response\<close>. The debug flag only prints; what is printed is not modelled.\<close>

definition decode_response :: "response \<Rightarrow> bool \<Rightarrow> json" where
  "decode_response r debug =
     (case response_json r of
        Inr j \<Rightarrow> j
      | Inl e \<Rightarrow> JObj [(''error'', JStr ''Response is not JSON encoded''),
                        (''status_code'', JInt (status_code r)),
                        (''text'', JStr (body_text r))])"

text \<open>\<^verbatim>\<open>Client.get\<close> returns the response itself when \<^verbatim>\<open>raw\<close> is set and the decoded
  body otherwise.\<close>

datatype get_result = Raw_response response | Decoded json

definition get ::
  "'cfg externals \<Rightarrow> 'cfg Client \<Rightarrow> string \<Rightarrow> json \<Rightarrow> bool \<Rightarrow> bool \<Rightarrow> error + get_result" where
  "get X c endpoint team raw debug =
     (let response = send X c GET endpoint None team
      in if status_code response = 401 then Inl Unauthorized
         else if status_code response = 404 then Inl (NotFound (Str (urljoin X (url c) endpoint)))
         else if raw then Inr (Raw_response response)
         else Inr (Decoded (decode_response response debug)))"

definition put ::
  "'cfg externals \<Rightarrow> 'cfg Client \<Rightarrow> string \<Rightarrow> json \<Rightarrow> json \<Rightarrow> bool \<Rightarrow> error + json" where
  "put X c endpoint body team debug =
     (let response = send X c PUT endpoint (Some body) team
      in if status_code response = 401 then Inl Unauthorized
         else andthen
           (if status_code response = 429
            then andthen (response_json response) (\<lambda>j.
                 andthen (py_getitem j ''errors'') (\<lambda>errors.
                 andthen (py_getitem errors ''code'') (\<lambda>error_code.
                   if py_eq error_code (JStr ''INSUFFICIENT_REMAINING_STORAGE'')
                   then Inl InsufficientStorage else Inr ())))
            else Inr ())
           (\<lambda>_. Inr (decode_response response debug)))"

text \<open>An error handler is a callable of the caller: it receives the status code and the
  decoded body, and either returns or raises. \<open>'s\<close> is whatever state the caller's handlers
  act on; the result \<open>Some e\<close> is the exception \<open>e\<close> raised. The loop of \<^verbatim>\<open>Client.post\<close>
  evaluates \<^verbatim>\<open>response.json()\<close> anew for every handler, outside any \<^verbatim>\<open>try\<close>.\<close>

type_synonym 's error_handler = "int \<Rightarrow> json \<Rightarrow> 's \<Rightarrow> error option \<times> 's"

fun run_handlers :: "'s error_handler list \<Rightarrow> response \<Rightarrow> 's \<Rightarrow> error option \<times> 's" where
  "run_handlers [] r s = (None, s)"
| "run_handlers (h # hs) r s =
     (case response_json r of
        Inl e \<Rightarrow> (Some e, s)
      | Inr j \<Rightarrow> (case h (status_code r) j s of
                    (Some e, s') \<Rightarrow> (Some e, s')
                  | (None, s') \<Rightarrow> run_handlers hs r s'))"

definition post ::
  "'cfg externals \<Rightarrow> 'cfg Client \<Rightarrow> string \<Rightarrow> json \<Rightarrow> json \<Rightarrow> 's error_handler list option \<Rightarrow>
   bool \<Rightarrow> 's \<Rightarrow> (error + json) \<times> 's" where
  "post X c endpoint body team error_handlers debug s =
     (let body' = (if body = JNull then JObj [] else body);
          handlers = (case error_handlers of None \<Rightarrow> [] | Some hs \<Rightarrow> hs);
          response = send X c POST endpoint (Some body') team
      in if status_code response = 401 then (Inl Unauthorized, s)
         else if status_code response \<noteq> 200
         then (case run_handlers handlers response s of
                 (Some e, s') \<Rightarrow> (Inl e, s')
               | (None, s') \<Rightarrow>
                   (if debug
                    then (case response_json response of
                            Inl e \<Rightarrow> (Inl e, s')
                          | Inr j \<Rightarrow> (Inr (decode_response response debug), s'))
                    else (Inr (decode_response response debug), s')))
         else (Inr (decode_response response debug), s))"

text \<open>\<^verbatim>\<open>RemoteDataset\<close> (\<^verbatim>\<open>darwin.dataset\<close>) is not among the sources: the record holds the
  keyword arguments its constructor is called with.\<close>

record 'cfg RemoteDataset =
  name :: json
  slug :: json
  team :: json
  dataset_id :: json
  image_count :: json
  progress :: json
  client :: "'cfg Client"

text \<open>The body of the generator \<^verbatim>\<open>list_remote_datasets\<close>, over the elements that iterating
  the decoded listing gives.\<close>

fun remote_datasets :: "'cfg Client \<Rightarrow> json \<Rightarrow> json list \<Rightarrow> error + 'cfg RemoteDataset list" where
  "remote_datasets c tm [] = Inr []"
| "remote_datasets c tm (dataset # rest) =
     andthen (py_getitem dataset ''name'') (\<lambda>v_name.
     andthen (py_getitem dataset ''slug'') (\<lambda>v_slug.
     andthen (py_getitem dataset ''id'') (\<lambda>v_id.
     andthen (py_getitem dataset ''num_images'') (\<lambda>v_num_images.
     andthen (py_getitem dataset ''progress'') (\<lambda>v_progress.
     andthen (remote_datasets c tm rest) (\<lambda>ds.
       Inr (\<lparr>name = v_name, slug = v_slug, team = py_or tm (default_team c),
             dataset_id = v_id, image_count = v_num_images, progress = v_progress,
             client = c\<rparr> # ds)))))))"

definition list_remote_datasets ::
  "'cfg externals \<Rightarrow> 'cfg Client \<Rightarrow> json \<Rightarrow> error + 'cfg RemoteDataset list" where
  "list_remote_datasets X c tm =
     andthen (get X c ''/datasets/'' tm False False) (\<lambda>r.
       case r of
         Decoded listing \<Rightarrow> andthen (py_iter listing) (remote_datasets c tm)
       | Raw_response _ \<Rightarrow> Inl TypeError)"

text \<open>\<^verbatim>\<open>get_remote_dataset\<close> takes a string or an identifier. The identifier it works on
  (with the team filled in) is the one \<open>NotFound\<close> carries.\<close>

definition get_remote_dataset ::
  "'cfg externals \<Rightarrow> 'cfg Client \<Rightarrow> str_or_identifier \<Rightarrow> error + 'cfg RemoteDataset" where
  "get_remote_dataset X c dataset_identifier =
     andthen (case dataset_identifier of
                Str s \<Rightarrow> DatasetIdentifier_parse X s
              | Ident i \<Rightarrow> Inr i) (\<lambda>parsed_identifier.
       let i = (if \<not> py_truthy (DatasetIdentifier.team_slug parsed_identifier)
                then parsed_identifier\<lparr>DatasetIdentifier.team_slug := default_team c\<rparr>
                else parsed_identifier)
       in andthen (list_remote_datasets X c (DatasetIdentifier.team_slug i)) (\<lambda>datasets.
            case filter (\<lambda>dataset. py_eq (slug dataset) (DatasetIdentifier.dataset_slug i)) datasets of
              [] \<Rightarrow> Inl (NotFound (Ident i))
            | first # _ \<Rightarrow> Inr first))"

definition default_base_url :: "'cfg externals \<Rightarrow> string" where
  "default_base_url X =
     (case getenv X ''DARWIN_BASE_URL'' of None \<Rightarrow> ''https://darwin.v7labs.com'' | Some v \<Rightarrow> v)"

definition default_api_url :: "'cfg externals \<Rightarrow> string" where
  "default_api_url X = default_base_url X @ ''/api/''"

text \<open>The list comprehension of \<^verbatim>\<open>from_api_key\<close>: the condition \<^verbatim>\<open>team["id"] == team_id\<close>
  is evaluated for every team, \<^verbatim>\<open>team["slug"]\<close> only for a team that passes it.\<close>

fun matching_slugs :: "json \<Rightarrow> json list \<Rightarrow> error + json list" where
  "matching_slugs team_id [] = Inr []"
| "matching_slugs team_id (t # ts) =
     andthen (py_getitem t ''id'') (\<lambda>i.
       if py_eq i team_id
       then andthen (py_getitem t ''slug'') (\<lambda>s.
            andthen (matching_slugs team_id ts) (\<lambda>r. Inr (s # r)))
       else matching_slugs team_id ts)"

text \<open>The request of \<^verbatim>\<open>from_api_key\<close>:
  \<^verbatim>\<open>requests.get(urljoin(api_url, "/users/token_info"), headers=headers)\<close>.\<close>

definition token_info :: "'cfg externals \<Rightarrow> string \<Rightarrow> response" where
  "token_info X key =
     (let hdrs = [(''Content-Type'', ''application/json''), (''Authorization'', ''ApiKey '' @ key)];
          api_url = default_api_url X
      in requests X \<lparr>verb = GET, target = urljoin X (JStr api_url) ''/users/token_info'',
                     payload = None, headers = hdrs\<rparr>)"

definition from_api_key ::
  "'cfg externals \<Rightarrow> string \<Rightarrow> string option \<Rightarrow> error + 'cfg Client" where
  "from_api_key X key dir =
     (let dir' = (case dir of None \<Rightarrow> home_datasets_dir X | Some d \<Rightarrow> d);
          api_url = default_api_url X;
          response = token_info X key
      in if status_code response \<noteq> 200 then Inl InvalidLogin
         else andthen (response_json response) (\<lambda>data.
              andthen (py_getitem data ''selected_team'') (\<lambda>selected_team.
              andthen (py_getitem selected_team ''id'') (\<lambda>team_id.
              andthen (py_getitem data ''teams'') (\<lambda>teams.
              andthen (py_iter teams) (\<lambda>ts.
              andthen (matching_slugs team_id ts) (\<lambda>slugs.
                case slugs of
                  [] \<Rightarrow> Inl IndexError
                | tm # _ \<Rightarrow>
                    Inr (Client_init X
                           (Config_set_global X (Config_set_team X (Config_new X) tm key dir')
                              api_url (default_base_url X))
                           tm))))))))"

section \<open>Release (darwin/dataset/release.py)\<close>

text \<open>\<open>'d\<close> is the type of \<^verbatim>\<open>datetime\<close> values. \<open>available\<close> only ever receives the
  literals \<^verbatim>\<open>False\<close> and \<^verbatim>\<open>True\<close>.\<close>

record 'd Release =
  dataset_slug :: json
  team_slug :: json
  version :: json
  url :: json
  export_date :: 'd
  image_count :: json
  class_count :: json
  available :: bool
  latest :: json

text \<open>\<^verbatim>\<open>Release.__init__\<close> has nine parameters and a default for none of them. Its callers
  pass keyword arguments, so a call is modelled by what it gives for each parameter: \<open>None\<close>
  when the call does not pass that keyword. Python then raises TypeError (a required argument
  is missing) instead of running the body.\<close>

definition required :: "'a option \<Rightarrow> error + 'a" where
  "required a = (case a of None \<Rightarrow> Inl TypeError | Some v \<Rightarrow> Inr v)"

definition Release_init ::
  "json option \<Rightarrow> json option \<Rightarrow> json option \<Rightarrow> json option \<Rightarrow> 'd option \<Rightarrow>
   json option \<Rightarrow> json option \<Rightarrow> bool option \<Rightarrow> json option \<Rightarrow> error + 'd Release" where
  "Release_init a_dataset_slug a_team_slug a_version a_url a_export_date
                a_image_count a_class_count a_available a_latest =
     andthen (required a_dataset_slug) (\<lambda>ds.
     andthen (required a_team_slug) (\<lambda>ts.
     andthen (required a_version) (\<lambda>v.
     andthen (required a_url) (\<lambda>u.
     andthen (required a_export_date) (\<lambda>d.
     andthen (required a_image_count) (\<lambda>ic.
     andthen (required a_class_count) (\<lambda>cc.
     andthen (required a_available) (\<lambda>av.
     andthen (required a_latest) (\<lambda>l.
       Inr \<lparr>dataset_slug = ds, team_slug = ts, version = v, url = u, export_date = d,
            image_count = ic, class_count = cc, available = av, latest = l\<rparr>)))))))))"

text \<open>\<^verbatim>\<open>Release.parse_json\<close>. \<open>strptime\<close> is \<^verbatim>\<open>datetime.datetime.strptime\<close>, a parameter:
  it raises on a value that does not have the format. The first call of the constructor
  passes eight keywords, and \<^verbatim>\<open>url\<close> is not one of them.\<close>

definition parse_json ::
  "(json \<Rightarrow> string \<Rightarrow> error + 'd) \<Rightarrow> json \<Rightarrow> json \<Rightarrow> json \<Rightarrow> error + 'd Release" where
  "parse_json strptime a_dataset_slug a_team_slug body =
     andthen (py_getitem body ''inserted_at'') (\<lambda>inserted_at.
     andthen (strptime inserted_at ''%Y-%m-%dT%H:%M:%S%z'') (\<lambda>date.
     andthen (py_getitem body ''download_url'') (\<lambda>download_url.
       if download_url = JNull
       then andthen (py_getitem body ''version'') (\<lambda>v.
              Release_init (Some a_dataset_slug) (Some a_team_slug) (Some v) None (Some date)
                (Some JNull) (Some JNull) (Some False) (Some (JBool False)))
       else andthen (py_getitem body ''name'') (\<lambda>v.
            andthen (py_getitem body ''metadata'') (\<lambda>metadata.
            andthen (py_getitem metadata ''num_images'') (\<lambda>num_images.
            andthen (py_getitem body ''metadata'') (\<lambda>metadata'.
            andthen (py_getitem metadata' ''annotation_classes'') (\<lambda>annotation_classes.
            andthen (py_len annotation_classes) (\<lambda>n.
            andthen (py_getitem body ''download_url'') (\<lambda>u.
            andthen (py_getitem body ''latest'') (\<lambda>l.
              Release_init (Some a_dataset_slug) (Some a_team_slug) (Some v) (Some u) (Some date)
                (Some num_images) (Some n) (Some True) (Some l))))))))))))"

text \<open>The property \<^verbatim>\<open>Release.identifier\<close> (\<open>identifier\<close> alone is a keyword of
  Isabelle) builds the string and passes it to the constructor
  of \<^verbatim>\<open>DatasetIdentifier\<close>, a class that is not among the sources: the constructor is a
  parameter, and so is the built-in \<^verbatim>\<open>str\<close> for a field that is not a string.\<close>

definition Release_identifier ::
  "(string \<Rightarrow> error + DatasetIdentifier) \<Rightarrow> (json \<Rightarrow> string) \<Rightarrow> 'd Release \<Rightarrow>
   error + DatasetIdentifier" where
  "Release_identifier DatasetIdentifier_new builtin_str r =
     DatasetIdentifier_new
       (format_value builtin_str (team_slug r) @ ''/'' @
        format_value builtin_str (dataset_slug r) @ '':'' @
        format_value builtin_str (version r))"

section \<open>One instance of the collaborators\<close>

text \<open>The theorems below hold for all collaborators. Where one of them is applied to concrete
  values, the collaborators are these: \<open>join_url\<close> strips the slashes at both ends of its parts
  and puts one between them; the transport answers every request with the response it is
  given; the configuration is kept in memory; an identifier \<^verbatim>\<open>team/slug:version\<close> is cut at
  its first slash and, after it, at its first colon; a date is kept as its text; no
  environment variable is set.\<close>

definition strip_slashes :: "string \<Rightarrow> string" where
  "strip_slashes s =
     rev (dropWhile (\<lambda>c. c = CHR ''/'') (rev (dropWhile (\<lambda>c. c = CHR ''/'') s)))"

fun join_url :: "json \<Rightarrow> string \<Rightarrow> string" where
  "join_url (JStr a) b = strip_slashes a @ ''/'' @ strip_slashes b"
| "join_url _ b = strip_slashes b"

definition answer :: "response \<Rightarrow> request \<Rightarrow> response" where
  "answer r q = r"

record memory_config =
  globals :: "(string \<times> json) list"
  teams :: "(json \<times> team_config) list"

definition memory_get :: "memory_config \<Rightarrow> string \<Rightarrow> json" where
  "memory_get cfg k = (case map_of (globals cfg) k of None \<Rightarrow> JNull | Some v \<Rightarrow> v)"

definition memory_get_team :: "memory_config \<Rightarrow> json \<Rightarrow> team_config" where
  "memory_get_team cfg t =
     (case map_of (teams cfg) t of
        None \<Rightarrow> \<lparr>api_key = None, datasets_dir = []\<rparr>
      | Some tc \<Rightarrow> tc)"

definition memory_set_team :: "memory_config \<Rightarrow> json \<Rightarrow> string \<Rightarrow> string \<Rightarrow> memory_config" where
  "memory_set_team cfg t k d = cfg\<lparr>teams := (t, \<lparr>api_key = Some k, datasets_dir = d\<rparr>) # teams cfg\<rparr>"

definition memory_set_global :: "memory_config \<Rightarrow> string \<Rightarrow> string \<Rightarrow> memory_config" where
  "memory_set_global cfg a b =
     cfg\<lparr>globals := (''global/api_endpoint'', JStr a) # (''global/base_url'', JStr b) # globals cfg\<rparr>"

fun split_at :: "char \<Rightarrow> string \<Rightarrow> (string \<times> string) option" where
  "split_at sep [] = None"
| "split_at sep (c # cs) =
     (if c = sep then Some ([], cs)
      else (case split_at sep cs of None \<Rightarrow> None | Some (a, b) \<Rightarrow> Some (c # a, b)))"

definition cut_identifier :: "string \<Rightarrow> error + DatasetIdentifier" where
  "cut_identifier s =
     (let (t, rest) = (case split_at (CHR ''/'') s of None \<Rightarrow> (JNull, s) | Some (a, b) \<Rightarrow> (JStr a, b));
          (d, v) = (case split_at (CHR '':'') rest of None \<Rightarrow> (rest, JNull) | Some (a, b) \<Rightarrow> (a, JStr b))
      in Inr \<lparr>DatasetIdentifier.team_slug = t, DatasetIdentifier.dataset_slug = JStr d,
              DatasetIdentifier.version = v\<rparr>)"

fun text_date :: "json \<Rightarrow> string \<Rightarrow> error + string" where
  "text_date (JStr s) fmt = (if s = [] then Inl ValueError else Inr s)"
| "text_date _ fmt = Inl TypeError"

fun const_str :: "json \<Rightarrow> string" where
  "const_str JNull = ''None''"
| "const_str (JBool b) = (if b then ''True'' else ''False'')"
| "const_str _ = []"

definition no_env :: "string \<Rightarrow> string option" where
  "no_env k = None"

text \<open>Handlers for the examples: \<open>recording i decide\<close> is handler number \<open>i\<close>; it appends
  its number and its two arguments to the list of calls, the state here, and raises what \<open>decide\<close> says.
  \<open>recorded i ds\<close> numbers the handlers of a list from \<open>i\<close> on.\<close>

definition recording ::
  "nat \<Rightarrow> (int \<Rightarrow> json \<Rightarrow> error option) \<Rightarrow> (nat \<times> int \<times> json) list error_handler" where
  "recording i decide code body calls = (decide code body, calls @ [(i, code, body)])"

fun recorded ::
  "nat \<Rightarrow> (int \<Rightarrow> json \<Rightarrow> error option) list \<Rightarrow> (nat \<times> int \<times> json) list error_handler list" where
  "recorded i [] = []"
| "recorded i (d # ds) = recording i d # recorded (Suc i) ds"

definition refuse :: "string \<Rightarrow> int \<Rightarrow> json \<Rightarrow> error option" where
  "refuse msg code body = Some (Raised msg)"

definition accept :: "int \<Rightarrow> json \<Rightarrow> error option" where
  "accept code body = None"

definition example_externals :: "response \<Rightarrow> memory_config externals" where
  "example_externals r =
     \<lparr>urljoin = join_url, requests = answer r,
      Config_get = memory_get, Config_get_team = memory_get_team,
      Config_new = \<lparr>globals = [], teams = []\<rparr>,
      Config_set_team = memory_set_team, Config_set_global = memory_set_global,
      DatasetIdentifier_parse = cut_identifier, getenv = no_env,
      home_datasets_dir = ''/home/user/.darwin/datasets''\<rparr>"

definition example_client :: "memory_config Client" where
  "example_client =
     \<lparr>config = \<lparr>globals = [(''global/api_endpoint'', JStr ''https://darwin.v7labs.com/api/''),
                             (''global/base_url'', JStr ''https://darwin.v7labs.com'')],
                  teams = [(JStr ''acme'', \<lparr>api_key = Some ''k1'', datasets_dir = ''/data''\<rparr>)]\<rparr>,
      Client.url = JStr ''https://darwin.v7labs.com/api/'',
      base_url = JStr ''https://darwin.v7labs.com'',
      default_team = JStr ''acme''\<rparr>"

text \<open>Responses for the examples (\<open>body_text\<close> without the quotation marks of the JSON
  text).\<close>

definition denied :: response where
  "denied = \<lparr>status_code = 401, body_text = ''denied'', parsed = None\<rparr>"

definition missing :: response where
  "missing = \<lparr>status_code = 404, body_text = ''no such page'', parsed = None\<rparr>"

definition storage_full :: response where
  "storage_full =
     \<lparr>status_code = 429, body_text = ''{errors: {code: INSUFFICIENT_REMAINING_STORAGE}}'',
      parsed = Some (JObj [(''errors'', JObj [(''code'', JStr ''INSUFFICIENT_REMAINING_STORAGE'')])])\<rparr>"

definition too_many :: response where
  "too_many =
     \<lparr>status_code = 429, body_text = ''{errors: {code: RATE_LIMITED}}'',
      parsed = Some (JObj [(''errors'', JObj [(''code'', JStr ''RATE_LIMITED'')])])\<rparr>"

definition garbled_ok :: response where
  "garbled_ok = \<lparr>status_code = 200, body_text = ''<html>'', parsed = None\<rparr>"

definition garbled_429 :: response where
  "garbled_429 = \<lparr>status_code = 429, body_text = ''Too Many Requests'', parsed = None\<rparr>"

definition garbled_500 :: response where
  "garbled_500 = \<lparr>status_code = 500, body_text = ''Internal Server Error'', parsed = None\<rparr>"

definition name_taken_422 :: response where
  "name_taken_422 = \<lparr>status_code = 422, body_text = ''{errors: {name: [has already been taken]}}'',
      parsed = Some (JObj [(''errors'', JObj [(''name'', JList [JStr ''has already been taken''])])])\<rparr>"

definition denied_json :: response where
  "denied_json = \<lparr>status_code = 401, body_text = ''{errors: {}}'',
      parsed = Some (JObj [(''errors'', JObj [])])\<rparr>"

text \<open>Release payloads for the examples, and the release the second one describes.\<close>

definition unavailable_payload :: json where
  "unavailable_payload =
     JObj [(''inserted_at'', JStr ''2020-03-01T10:00:00+0000''), (''download_url'', JNull),
           (''version'', JStr ''1.0'')]"

definition available_payload :: json where
  "available_payload =
     JObj [(''inserted_at'', JStr ''2020-03-01T10:00:00+0000''), (''download_url'', JStr ''http://x''),
           (''name'', JStr ''v2''), (''latest'', JBool True),
           (''metadata'', JObj [(''num_images'', JInt 10),
                                (''annotation_classes'', JList [JStr ''a'', JStr ''b'', JStr ''c''])])]"

definition example_release :: "string Release" where
  "example_release =
     \<lparr>dataset_slug = JStr ''cats'', team_slug = JStr ''acme'', version = JStr ''v2'',
      url = JStr ''http://x'', export_date = ''2020-03-01T10:00:00+0000'',
      image_count = JInt 10, class_count = JInt 3, available = True, latest = JBool True\<rparr>"

text \<open>A listing of three datasets, two of them with the slug \<^verbatim>\<open>cats\<close>, the datasets
  \<^verbatim>\<open>list_remote_datasets\<close> makes of them for the team \<^verbatim>\<open>acme\<close>, two identifiers, and two
  answers of the token-info endpoint.\<close>

definition cats_1 :: json where
  "cats_1 = JObj [(''id'', JInt 1), (''name'', JStr ''Cats''), (''slug'', JStr ''cats''),
                  (''num_images'', JInt 10), (''progress'', JFloat (1 / 2))]"

definition cats_2 :: json where
  "cats_2 = JObj [(''id'', JInt 2), (''name'', JStr ''Cats again''), (''slug'', JStr ''cats''),
                  (''num_images'', JInt 0), (''progress'', JFloat 0)]"

definition dogs_3 :: json where
  "dogs_3 = JObj [(''id'', JInt 3), (''name'', JStr ''Dogs''), (''slug'', JStr ''dogs''),
                  (''num_images'', JInt 4), (''progress'', JFloat 1)]"

definition listing :: response where
  "listing = \<lparr>status_code = 200, body_text = ''[...]'', parsed = Some (JList [dogs_3, cats_1, cats_2])\<rparr>"

definition dataset_of :: "int \<Rightarrow> string \<Rightarrow> string \<Rightarrow> int \<Rightarrow> rat \<Rightarrow> memory_config RemoteDataset" where
  "dataset_of i n s k p =
     \<lparr>name = JStr n, slug = JStr s, team = JStr ''acme'', dataset_id = JInt i,
      image_count = JInt k, progress = JFloat p, client = example_client\<rparr>"

definition acme_cats :: DatasetIdentifier where
  "acme_cats = \<lparr>DatasetIdentifier.team_slug = JStr ''acme'', DatasetIdentifier.dataset_slug = JStr ''cats'',
                 DatasetIdentifier.version = JNull\<rparr>"

definition birds :: DatasetIdentifier where
  "birds = \<lparr>DatasetIdentifier.team_slug = JNull, DatasetIdentifier.dataset_slug = JStr ''birds'',
             DatasetIdentifier.version = JNull\<rparr>"

definition token_ok :: response where
  "token_ok = \<lparr>status_code = 200, body_text = ''{selected_team: {id: 7}, teams: [{id: 7, slug: acme}]}'',
     parsed = Some (JObj [(''selected_team'', JObj [(''id'', JInt 7)]),
                          (''teams'', JList [JObj [(''id'', JInt 7), (''slug'', JStr ''acme'')]])])\<rparr>"

definition token_other_team :: response where
  "token_other_team = \<lparr>status_code = 200, body_text = ''{selected_team: {id: 7}, teams: [{id: 8, slug: other}]}'',
     parsed = Some (JObj [(''selected_team'', JObj [(''id'', JInt 7)]),
                          (''teams'', JList [JObj [(''id'', JInt 8), (''slug'', JStr ''other'')]])])\<rparr>"

section \<open>Facts about the values and the instance\<close>

lemma py_eq_JStr: "py_eq v (JStr s) = (v = JStr s)"
  by (cases v) auto

lemma example_externals_sel:
  "urljoin (example_externals r) = join_url"
  "requests (example_externals r) = answer r"
  "Config_get (example_externals r) = memory_get"
  "Config_get_team (example_externals r) = memory_get_team"
  "Config_new (example_externals r) = \<lparr>globals = [], teams = []\<rparr>"
  "Config_set_team (example_externals r) = memory_set_team"
  "Config_set_global (example_externals r) = memory_set_global"
  "DatasetIdentifier_parse (example_externals r) = cut_identifier"
  "getenv (example_externals r) = no_env"
  "home_datasets_dir (example_externals r) = ''/home/user/.darwin/datasets''"
  by (simp_all add: example_externals_def)

lemma send_example: "send (example_externals r) c v e b t = r"
  by (simp add: send_def example_externals_def answer_def)

lemma decode_unparsed:
  "parsed r = None \<Longrightarrow>
   decode_response r debug = JObj [(''error'', JStr ''Response is not JSON encoded''),
               (''status_code'', JInt (status_code r)), (''text'', JStr (body_text r))]"
  by (simp add: decode_response_def response_json_def)

lemma upt_shift: "[n ..< n + Suc k] = n # [Suc n ..< Suc n + k]"
  by (simp add: upt_conv_Cons)

lemma run_handlers_recorded:
  "parsed r = Some j \<Longrightarrow>
   run_handlers (recorded n ds) r calls =
     ((case dropWhile (\<lambda>d. d (status_code r) j = None) ds of
         [] \<Rightarrow> None
       | d # _ \<Rightarrow> d (status_code r) j),
      calls @ map (\<lambda>i. (i, status_code r, j))
        [n ..< n + length (takeWhile (\<lambda>d. d (status_code r) j = None) ds
                            @ take 1 (dropWhile (\<lambda>d. d (status_code r) j = None) ds))])"
proof (induction ds arbitrary: n calls)
  case Nil
  then show ?case by simp
next
  case (Cons d ds)
  let ?k = "length (takeWhile (\<lambda>d. d (status_code r) j = None) ds
                    @ take 1 (dropWhile (\<lambda>d. d (status_code r) j = None) ds))"
  show ?case
  proof (cases "d (status_code r) j")
    case None
    have len: "length (takeWhile (\<lambda>d. d (status_code r) j = None) (d # ds)
                 @ take 1 (dropWhile (\<lambda>d. d (status_code r) j = None) (d # ds))) = Suc ?k"
      using None by simp
    have step: "run_handlers (recorded n (d # ds)) r calls
                  = run_handlers (recorded (Suc n) ds) r (calls @ [(n, status_code r, j)])"
      using None Cons.prems by (simp add: response_json_def recording_def)
    show ?thesis
      unfolding step len upt_shift
      using None Cons.IH [OF Cons.prems, of "Suc n" "calls @ [(n, status_code r, j)]"]
      by simp
  next
    case (Some e)
    then show ?thesis
      using Cons.prems
      by (simp add: response_json_def recording_def)
  qed
qed

lemma post_of_response:
  assumes "send X c POST endpoint (Some (if body = JNull then JObj [] else body)) tm = r"
  shows "post X c endpoint body tm handlers debug s =
     (if status_code r = 401 then (Inl Unauthorized, s)
      else if status_code r \<noteq> 200
      then (case run_handlers (case handlers of None \<Rightarrow> [] | Some hs \<Rightarrow> hs) r s of
              (Some e, s') \<Rightarrow> (Inl e, s')
            | (None, s') \<Rightarrow>
                (if debug
                 then (case response_json r of
                         Inl e \<Rightarrow> (Inl e, s')
                       | Inr j \<Rightarrow> (Inr (decode_response r debug), s'))
                 else (Inr (decode_response r debug), s')))
      else (Inr (decode_response r debug), s))"
  unfolding post_def Let_def assms ..

lemma Release_init_no_url:
  "Release_init (Some ds) (Some ts) (Some v) None (Some d) (Some ic) (Some cc) (Some av) (Some l)
     = Inl TypeError"
  by (simp add: Release_init_def required_def andthen_def)

lemma Release_init_all:
  "Release_init (Some ds) (Some ts) (Some v) (Some u) (Some d) (Some ic) (Some cc) (Some av) (Some l)
     = Inr \<lparr>dataset_slug = ds, team_slug = ts, version = v, url = u, export_date = d,
             image_count = ic, class_count = cc, available = av, latest = l\<rparr>"
  by (simp add: Release_init_def required_def andthen_def)

lemma listing_example:
  "list_remote_datasets (example_externals listing) example_client (JStr ''acme'')
     = Inr [dataset_of 3 ''Dogs'' ''dogs'' 4 1, dataset_of 1 ''Cats'' ''cats'' 10 (1 / 2),
            dataset_of 2 ''Cats again'' ''cats'' 0 0]"
  by (simp add: list_remote_datasets_def get_def send_example listing_def decode_response_def
      response_json_def andthen_def cats_1_def cats_2_def dogs_3_def dataset_of_def py_or_def)

lemma cut_acme_cats: "cut_identifier ''acme/cats'' = Inr acme_cats"
  by (simp add: cut_identifier_def acme_cats_def)

lemma token_info_example: "token_info (example_externals r) key = r"
  by (simp add: token_info_def example_externals_def answer_def Let_def)

lemma default_team_Client_init:
  "py_truthy t \<Longrightarrow> default_team (Client_init X cfg t) = t"
  by (simp add: Client_init_def py_or_def)

lemma matching_slugs_none:
  "\<forall>t \<in> set ts. \<exists>i. py_getitem t ''id'' = Inr i \<and> \<not> py_eq i team_id \<Longrightarrow>
   matching_slugs team_id ts = Inr []"
  by (induction ts) (auto simp add: andthen_def)

section \<open>The request mediator\<close>

text \<open>C2. Whatever the verb, a response with status 401 makes the operation raise
  \<open>Unauthorized\<close>: GET whether or not \<^verbatim>\<open>raw\<close> is set, PUT and POST whatever the body of the
  response, POST whatever handlers are registered, none of which is called (the state they act
  on is the one the call started with). No payload is returned.\<close>

theorem unauthorized_on_401:
  "(status_code (send X c GET endpoint None tm) = 401 \<longrightarrow>
      get X c endpoint tm raw debug = Inl Unauthorized) \<and>
   (status_code (send X c PUT endpoint (Some body) tm) = 401 \<longrightarrow>
      put X c endpoint body tm debug = Inl Unauthorized) \<and>
   (status_code (send X c POST endpoint (Some (if body = JNull then JObj [] else body)) tm) = 401 \<longrightarrow>
      post X c endpoint body tm handlers debug s = (Inl Unauthorized, s))"
  by (simp add: get_def put_def post_def Let_def)

theorem unauthorized_on_401_witness:
  "status_code (send (example_externals denied) example_client GET ''/datasets/'' None JNull) = 401 \<and>
   get (example_externals denied) example_client ''/datasets/'' JNull True False = Inl Unauthorized \<and>
   put (example_externals denied) example_client ''/datasets/'' JNull JNull False = Inl Unauthorized \<and>
   post (example_externals denied) example_client ''/datasets/'' JNull JNull
     (Some (recorded 0 [refuse ''name taken''])) False [] = (Inl Unauthorized, [])"
  using unauthorized_on_401 [where X = "example_externals denied" and c = example_client
      and endpoint = "''/datasets/''" and tm = JNull and raw = True and debug = False
      and body = JNull and handlers = "Some (recorded 0 [refuse ''name taken''])" and s = "[]"]
  by (simp add: send_example denied_def)

text \<open>C4. A PUT answered with status 429 whose decoded body has an \<^verbatim>\<open>errors.code\<close>: when the
  code is the string \<^verbatim>\<open>INSUFFICIENT_REMAINING_STORAGE\<close> the operation raises
  \<open>InsufficientStorage\<close>; with any other code it raises nothing and returns the decoded
  body.\<close>

theorem put_429_storage:
  assumes "status_code (send X c PUT endpoint (Some body) tm) = 429"
    and "parsed (send X c PUT endpoint (Some body) tm) = Some j"
    and "py_getitem j ''errors'' = Inr errors"
    and "py_getitem errors ''code'' = Inr code"
  shows "put X c endpoint body tm debug =
           (if code = JStr ''INSUFFICIENT_REMAINING_STORAGE'' then Inl InsufficientStorage else Inr j)"
  using assms
  by (simp add: put_def Let_def andthen_def response_json_def decode_response_def py_eq_JStr)

theorem put_429_storage_witness:
  "put (example_externals storage_full) example_client ''/datasets/1'' (JObj []) JNull False
     = Inl InsufficientStorage \<and>
   put (example_externals too_many) example_client ''/datasets/1'' (JObj []) JNull False
     = Inr (JObj [(''errors'', JObj [(''code'', JStr ''RATE_LIMITED'')])])"
  using put_429_storage [where X = "example_externals storage_full" and c = example_client
      and endpoint = "''/datasets/1''" and body = "JObj []" and tm = JNull and debug = False
      and j = "JObj [(''errors'', JObj [(''code'', JStr ''INSUFFICIENT_REMAINING_STORAGE'')])]"
      and errors = "JObj [(''code'', JStr ''INSUFFICIENT_REMAINING_STORAGE'')]"
      and code = "JStr ''INSUFFICIENT_REMAINING_STORAGE''"]
    put_429_storage [where X = "example_externals too_many" and c = example_client
      and endpoint = "''/datasets/1''" and body = "JObj []" and tm = JNull and debug = False
      and j = "JObj [(''errors'', JObj [(''code'', JStr ''RATE_LIMITED'')])]"
      and errors = "JObj [(''code'', JStr ''RATE_LIMITED'')]"
      and code = "JStr ''RATE_LIMITED''"]
  by (simp add: send_example storage_full_def too_many_def)

text \<open>C5, as the code has it. A GET answered with status 404 raises \<open>NotFound\<close>, and what
  \<open>NotFound\<close> carries is \<^verbatim>\<open>urljoin(self.url, endpoint)\<close>: the endpoint joined to the client's
  \<^verbatim>\<open>url\<close>, which is the configuration's \<^verbatim>\<open>global/api_endpoint\<close>, not to its
  \<^verbatim>\<open>base_url\<close>.\<close>

theorem get_404_not_found:
  "status_code (send X c GET endpoint None tm) = 404 \<Longrightarrow>
   get X c endpoint tm raw debug = Inl (NotFound (Str (urljoin X (Client.url c) endpoint)))"
  by (simp add: get_def Let_def)

theorem get_404_not_found_witness:
  "get (example_externals missing) example_client ''/datasets/'' JNull False False
     = Inl (NotFound (Str ''https://darwin.v7labs.com/api/datasets''))"
  using get_404_not_found [where X = "example_externals missing" and c = example_client
      and endpoint = "''/datasets/''" and tm = JNull and raw = False and debug = False]
  by (simp add: send_example missing_def example_externals_sel example_client_def strip_slashes_def)

text \<open>C5 as stated fails: for a client whose \<^verbatim>\<open>url\<close> is the API root and whose \<^verbatim>\<open>base_url\<close>
  is the site, a 404 on \<^verbatim>\<open>/datasets/\<close> carries the URL under the API root, which is not the
  join of \<^verbatim>\<open>base_url\<close> and the endpoint.\<close>

theorem get_404_base_url_counterexample:
  "status_code (send (example_externals missing) example_client GET ''/datasets/'' None JNull) = 404 \<and>
   get (example_externals missing) example_client ''/datasets/'' JNull False False
     = Inl (NotFound (Str ''https://darwin.v7labs.com/api/datasets'')) \<and>
   get (example_externals missing) example_client ''/datasets/'' JNull False False
     \<noteq> Inl (NotFound (Str (urljoin (example_externals missing) (base_url example_client) ''/datasets/'')))"
  by (simp add: send_example get_def missing_def example_externals_sel example_client_def strip_slashes_def)

text \<open>C3, as the code has it. For a response whose body is not JSON: a GET that is answered
  with a status other than 401 and 404 returns the mapping with the error marker, the status
  code and the raw text when \<^verbatim>\<open>raw\<close> is not set, and the response itself when it is; a PUT
  answered with a status other than 401 and 429 returns the mapping; a POST returns it when
  the status is 200, and when the status is not 401, no handler is registered and
  \<^verbatim>\<open>debug\<close> is off. Nothing is said here of a PUT answered with 429 or of a POST with
  handlers or \<^verbatim>\<open>debug\<close> answered with a status other than 200.\<close>

theorem malformed_body:
  assumes "parsed r = None"
  shows
  "(send X c GET endpoint None tm = r \<and> status_code r \<noteq> 401 \<and> status_code r \<noteq> 404 \<longrightarrow>
      get X c endpoint tm False debug = Inr (Decoded
        (JObj [(''error'', JStr ''Response is not JSON encoded''),
               (''status_code'', JInt (status_code r)), (''text'', JStr (body_text r))])) \<and>
      get X c endpoint tm True debug = Inr (Raw_response r)) \<and>
   (send X c PUT endpoint (Some body) tm = r \<and> status_code r \<noteq> 401 \<and> status_code r \<noteq> 429 \<longrightarrow>
      put X c endpoint body tm debug = Inr
        (JObj [(''error'', JStr ''Response is not JSON encoded''),
               (''status_code'', JInt (status_code r)), (''text'', JStr (body_text r))])) \<and>
   (send X c POST endpoint (Some (if body = JNull then JObj [] else body)) tm = r \<and>
    (status_code r = 200 \<or>
     status_code r \<noteq> 401 \<and> (handlers = None \<or> handlers = Some []) \<and> \<not> debug) \<longrightarrow>
      post X c endpoint body tm handlers debug s = (Inr
        (JObj [(''error'', JStr ''Response is not JSON encoded''),
               (''status_code'', JInt (status_code r)), (''text'', JStr (body_text r))]), s))"
proof (intro conjI impI)
  assume "send X c GET endpoint None tm = r \<and> status_code r \<noteq> 401 \<and> status_code r \<noteq> 404"
  then show "get X c endpoint tm False debug = Inr (Decoded
        (JObj [(''error'', JStr ''Response is not JSON encoded''),
               (''status_code'', JInt (status_code r)), (''text'', JStr (body_text r))]))"
    and "get X c endpoint tm True debug = Inr (Raw_response r)"
    using assms by (simp_all add: get_def Let_def decode_unparsed)
next
  assume "send X c PUT endpoint (Some body) tm = r \<and> status_code r \<noteq> 401 \<and> status_code r \<noteq> 429"
  then show "put X c endpoint body tm debug = Inr
        (JObj [(''error'', JStr ''Response is not JSON encoded''),
               (''status_code'', JInt (status_code r)), (''text'', JStr (body_text r))])"
    using assms by (simp add: put_def Let_def andthen_def decode_unparsed)
next
  assume h: "send X c POST endpoint (Some (if body = JNull then JObj [] else body)) tm = r \<and>
    (status_code r = 200 \<or>
     status_code r \<noteq> 401 \<and> (handlers = None \<or> handlers = Some []) \<and> \<not> debug)"
  then have r: "send X c POST endpoint (Some (if body = JNull then JObj [] else body)) tm = r"
    by simp
  from h consider "status_code r = 200"
    | "status_code r \<noteq> 401" "status_code r \<noteq> 200" "handlers = None \<or> handlers = Some []" "\<not> debug"
    by blast
  then show "post X c endpoint body tm handlers debug s = (Inr
        (JObj [(''error'', JStr ''Response is not JSON encoded''),
               (''status_code'', JInt (status_code r)), (''text'', JStr (body_text r))]), s)"
  proof cases
    case 1
    then show ?thesis
      using assms r by (simp add: post_def Let_def decode_unparsed)
  next
    case 2
    from 2(3) have "run_handlers (case handlers of None \<Rightarrow> [] | Some hs \<Rightarrow> hs) r s = (None, s)"
      by (cases handlers) auto
    then show ?thesis
      using assms r 2 by (simp add: post_def Let_def decode_unparsed)
  qed
qed

theorem malformed_body_witness:
  "get (example_externals garbled_500) example_client ''/datasets/'' JNull False False
     = Inr (Decoded (JObj [(''error'', JStr ''Response is not JSON encoded''),
                           (''status_code'', JInt 500), (''text'', JStr ''Internal Server Error'')])) \<and>
   get (example_externals garbled_500) example_client ''/datasets/'' JNull True False
     = Inr (Raw_response garbled_500) \<and>
   put (example_externals garbled_500) example_client ''/datasets/'' (JObj []) JNull False
     = Inr (JObj [(''error'', JStr ''Response is not JSON encoded''),
                  (''status_code'', JInt 500), (''text'', JStr ''Internal Server Error'')]) \<and>
   post (example_externals garbled_500) example_client ''/datasets/'' (JObj []) JNull
       (Some ([] :: (nat \<times> int \<times> json) list error_handler list)) False []
     = (Inr (JObj [(''error'', JStr ''Response is not JSON encoded''),
                   (''status_code'', JInt 500), (''text'', JStr ''Internal Server Error'')]), [])"
  using malformed_body [where r = garbled_500 and X = "example_externals garbled_500"
      and c = example_client and endpoint = "''/datasets/''" and tm = JNull and debug = False
      and body = "JObj []" and handlers = "Some []" and s = "[] :: (nat \<times> int \<times> json) list"]
  by (simp add: send_example garbled_500_def)

text \<open>C3 as stated fails. With a body that is not JSON: a GET with \<^verbatim>\<open>raw\<close> set returns the
  response, not the mapping; a PUT answered with 429 calls \<^verbatim>\<open>response.json()\<close> outside
  \<^verbatim>\<open>_decode_response\<close> and raises ValueError; so does a POST answered with 500 that has
  a handler registered, before the handler is called.\<close>

theorem malformed_body_counterexample:
  "parsed garbled_ok = None \<and> parsed garbled_429 = None \<and> parsed garbled_500 = None \<and>
   get (example_externals garbled_ok) example_client ''/datasets/'' JNull True False
     = Inr (Raw_response garbled_ok) \<and>
   put (example_externals garbled_429) example_client ''/datasets/1'' (JObj []) JNull False
     = Inl ValueError \<and>
   post (example_externals garbled_500) example_client ''/datasets'' (JObj []) JNull
     (Some (recorded 0 [accept])) False [] = (Inl ValueError, [])"
proof -
  have a: "get (example_externals garbled_ok) example_client ''/datasets/'' JNull True False
     = Inr (Raw_response garbled_ok)"
    by (simp add: get_def send_example garbled_ok_def)
  have b: "put (example_externals garbled_429) example_client ''/datasets/1'' (JObj []) JNull False
     = Inl ValueError"
    by (simp add: put_def send_example andthen_def response_json_def garbled_429_def)
  have c: "post (example_externals garbled_500) example_client ''/datasets'' (JObj []) JNull
     (Some (recorded 0 [accept])) False [] = (Inl ValueError, [])"
    by (simp add: post_def send_example response_json_def garbled_500_def)
  show ?thesis
    using a b c by (simp add: garbled_ok_def garbled_429_def garbled_500_def)
qed

text \<open>C7, as the code has it. A POST whose response has status 200 calls no handler (the
  state the handlers act on is unchanged, whatever they are) and returns the decoded body.
  When the status is neither 200 nor 401 and the body decodes to \<open>j\<close>, the handlers
  \<open>recorded 0 ds\<close> are called in the order of the list, each with the status code and \<open>j\<close>,
  up to and including the first that raises: its exception is the result; when none raises,
  all are called and the result is \<open>j\<close>.\<close>

theorem post_error_handlers:
  assumes "send X c POST endpoint (Some (if body = JNull then JObj [] else body)) tm = r"
  shows
  "(status_code r = 200 \<longrightarrow>
      post X c endpoint body tm handlers debug s = (Inr (decode_response r debug), s)) \<and>
   (status_code r \<noteq> 200 \<and> status_code r \<noteq> 401 \<and> parsed r = Some j \<longrightarrow>
      post X c endpoint body tm (Some (recorded 0 ds)) debug [] =
        ((case dropWhile (\<lambda>d. d (status_code r) j = None) ds of
            [] \<Rightarrow> Inr j
          | d # _ \<Rightarrow> (case d (status_code r) j of Some e \<Rightarrow> Inl e | None \<Rightarrow> Inr j)),
         map (\<lambda>i. (i, status_code r, j))
           [0 ..< length (takeWhile (\<lambda>d. d (status_code r) j = None) ds
                           @ take 1 (dropWhile (\<lambda>d. d (status_code r) j = None) ds))]))"
proof (intro conjI impI)
  assume "status_code r = 200"
  then show "post X c endpoint body tm handlers debug s = (Inr (decode_response r debug), s)"
    by (simp add: post_of_response [OF assms])
next
  assume h: "status_code r \<noteq> 200 \<and> status_code r \<noteq> 401 \<and> parsed r = Some j"
  then have p: "parsed r = Some j" by simp
  define K where "K = map (\<lambda>i. (i, status_code r, j))
        [0 ..< length (takeWhile (\<lambda>d. d (status_code r) j = None) ds
                            @ take 1 (dropWhile (\<lambda>d. d (status_code r) j = None) ds))]"
  define D where "D = dropWhile (\<lambda>d. d (status_code r) j = None) ds"
  have run: "run_handlers (recorded 0 ds) r [] = ((case D of [] \<Rightarrow> None | d # _ \<Rightarrow> d (status_code r) j), K)"
    unfolding K_def D_def using run_handlers_recorded [OF p, of 0 ds "[]"] by simp
  have dec: "\<And>b. decode_response r b = j" "response_json r = Inr j"
    using p by (simp_all add: decode_response_def response_json_def)
  have "post X c endpoint body tm (Some (recorded 0 ds)) debug [] =
        ((case D of
            [] \<Rightarrow> Inr j
          | d # _ \<Rightarrow> (case d (status_code r) j of Some e \<Rightarrow> Inl e | None \<Rightarrow> Inr j)), K)"
  proof (cases D)
    case Nil
    then show ?thesis using h by (simp add: post_of_response [OF assms] run dec)
  next
    case (Cons d rest)
    then show ?thesis
      using h by (cases "d (status_code r) j") (simp_all add: post_of_response [OF assms] run dec)
  qed
  then show "post X c endpoint body tm (Some (recorded 0 ds)) debug [] =
        ((case dropWhile (\<lambda>d. d (status_code r) j = None) ds of
            [] \<Rightarrow> Inr j
          | d # _ \<Rightarrow> (case d (status_code r) j of Some e \<Rightarrow> Inl e | None \<Rightarrow> Inr j)),
         map (\<lambda>i. (i, status_code r, j))
           [0 ..< length (takeWhile (\<lambda>d. d (status_code r) j = None) ds
                           @ take 1 (dropWhile (\<lambda>d. d (status_code r) j = None) ds))])"
    unfolding K_def D_def .
qed

theorem post_error_handlers_witness:
  "post (example_externals name_taken_422) example_client ''/datasets'' (JObj [(''name'', JStr ''cats'')]) JNull
     (Some (recorded 0 [accept, refuse ''name taken'', refuse ''validation failed''])) False []
   = (Inl (Raised ''name taken''),
      [(0, 422, JObj [(''errors'', JObj [(''name'', JList [JStr ''has already been taken''])])]),
       (1, 422, JObj [(''errors'', JObj [(''name'', JList [JStr ''has already been taken''])])])]) \<and>
   post (example_externals name_taken_422) example_client ''/datasets'' (JObj [(''name'', JStr ''cats'')]) JNull
     (Some (recorded 0 [accept, accept])) False []
   = (Inr (JObj [(''errors'', JObj [(''name'', JList [JStr ''has already been taken''])])]),
      [(0, 422, JObj [(''errors'', JObj [(''name'', JList [JStr ''has already been taken''])])]),
       (1, 422, JObj [(''errors'', JObj [(''name'', JList [JStr ''has already been taken''])])])])"
  using post_error_handlers [where X = "example_externals name_taken_422" and c = example_client
      and endpoint = "''/datasets''" and body = "JObj [(''name'', JStr ''cats'')]" and tm = JNull
      and r = name_taken_422 and debug = False
      and j = "JObj [(''errors'', JObj [(''name'', JList [JStr ''has already been taken''])])]"
      and ds = "[accept, refuse ''name taken'', refuse ''validation failed'']"]
    post_error_handlers [where X = "example_externals name_taken_422" and c = example_client
      and endpoint = "''/datasets''" and body = "JObj [(''name'', JStr ''cats'')]" and tm = JNull
      and r = name_taken_422 and debug = False
      and j = "JObj [(''errors'', JObj [(''name'', JList [JStr ''has already been taken''])])]"
      and ds = "[accept, accept]"]
  by (simp add: send_example name_taken_422_def accept_def refuse_def upt_rec)

text \<open>C7 as stated fails: 401 is a status other than 200, and a POST answered with 401 raises
  \<open>Unauthorized\<close> without calling the registered handler.\<close>

theorem post_401_handlers_counterexample:
  "status_code (send (example_externals denied_json) example_client POST ''/datasets''
      (Some (JObj [(''name'', JStr ''cats'')])) JNull) \<noteq> 200 \<and>
   post (example_externals denied_json) example_client ''/datasets'' (JObj [(''name'', JStr ''cats'')]) JNull
     (Some (recorded 0 [refuse ''name taken''])) False [] = (Inl Unauthorized, [])"
  by (simp add: post_def send_example denied_json_def)

section \<open>The release descriptor\<close>

text \<open>What \<^verbatim>\<open>parse_json\<close> does on a payload whose \<^verbatim>\<open>download_url\<close> is null: once the date
  is parsed and \<^verbatim>\<open>version\<close> is read, the constructor is called without \<^verbatim>\<open>url\<close> and raises
  TypeError; whatever else the payload holds, no release is returned.\<close>

lemma parse_json_unavailable:
  assumes "py_getitem body ''inserted_at'' = Inr t"
    and "strptime t ''%Y-%m-%dT%H:%M:%S%z'' = Inr d"
    and "py_getitem body ''download_url'' = Inr JNull"
    and "py_getitem body ''version'' = Inr v"
  shows "parse_json strptime ds ts body = Inl TypeError"
  using assms by (simp add: parse_json_def andthen_def Release_init_no_url)

lemma parse_json_null_url_never_returns:
  assumes "py_getitem body ''download_url'' = Inr JNull"
  shows "\<exists>e. parse_json strptime ds ts body = Inl e"
  using assms
  by (auto simp add: parse_json_def andthen_def Release_init_no_url split: sum.splits)

text \<open>On a payload with a \<^verbatim>\<open>download_url\<close> the release is available and holds
  the version from \<^verbatim>\<open>name\<close>, the image count from \<^verbatim>\<open>metadata.num_images\<close>, the class
  count the length of \<^verbatim>\<open>metadata.annotation_classes\<close>, the URL, and \<^verbatim>\<open>latest\<close> as the
  payload has it.\<close>

lemma parse_json_available:
  assumes "py_getitem body ''inserted_at'' = Inr t"
    and "strptime t ''%Y-%m-%dT%H:%M:%S%z'' = Inr d"
    and "py_getitem body ''download_url'' = Inr u" and "u \<noteq> JNull"
    and "py_getitem body ''name'' = Inr v"
    and "py_getitem body ''metadata'' = Inr m"
    and "py_getitem m ''num_images'' = Inr n"
    and "py_getitem m ''annotation_classes'' = Inr (JList cs)"
    and "py_getitem body ''latest'' = Inr l"
  shows "parse_json strptime ds ts body =
           Inr \<lparr>dataset_slug = ds, team_slug = ts, version = v, url = u, export_date = d,
                image_count = n, class_count = JInt (int (length cs)), available = True,
                latest = l\<rparr>"
  using assms by (simp add: parse_json_def andthen_def Release_init_all)

lemma parse_json_available_example:
  "parse_json text_date (JStr ''cats'') (JStr ''acme'') available_payload = Inr example_release"
  by (simp add: parse_json_def andthen_def Release_init_all available_payload_def example_release_def)

text \<open>C1 at a payload with \<^verbatim>\<open>download_url: null\<close> and \<^verbatim>\<open>version: "1.0"\<close>: the claim expects
  a release with \<^verbatim>\<open>available=False\<close> and \<^verbatim>\<open>version="1.0"\<close>; \<^verbatim>\<open>parse_json\<close> raises
  TypeError.\<close>

theorem parse_json_unavailable_raises:
  "parse_json text_date (JStr ''cats'') (JStr ''acme'') unavailable_payload = Inl TypeError"
  by (simp add: parse_json_def andthen_def Release_init_no_url unavailable_payload_def)

text \<open>C9, as the code has it. For a release whose team slug, dataset slug and version are the
  strings \<open>t\<close>, \<open>d\<close> and \<open>v\<close>, the property \<^verbatim>\<open>identifier\<close> is the \<^verbatim>\<open>DatasetIdentifier\<close>
  constructed from the string \<open>t/d:v\<close>. It is computed from the attributes at each access:
  with another version, the string has the new version.\<close>

theorem release_identifier_format:
  assumes "Release.team_slug r = JStr t" and "Release.dataset_slug r = JStr d"
    and "Release.version r = JStr v"
  shows "Release_identifier new str r = new (t @ ''/'' @ d @ '':'' @ v) \<and>
         Release_identifier new str (r\<lparr>Release.version := JStr v'\<rparr>) = new (t @ ''/'' @ d @ '':'' @ v')"
  using assms by (simp add: Release_identifier_def format_value_def)

theorem release_identifier_format_witness:
  "Release_identifier cut_identifier const_str example_release
     = Inr \<lparr>DatasetIdentifier.team_slug = JStr ''acme'', DatasetIdentifier.dataset_slug = JStr ''cats'',
             DatasetIdentifier.version = JStr ''v2''\<rparr> \<and>
   Release_identifier cut_identifier const_str (example_release\<lparr>Release.version := JStr ''v3''\<rparr>)
     = Inr \<lparr>DatasetIdentifier.team_slug = JStr ''acme'', DatasetIdentifier.dataset_slug = JStr ''cats'',
             DatasetIdentifier.version = JStr ''v3''\<rparr>"
  using release_identifier_format [where r = example_release and t = "''acme''" and d = "''cats''"
      and v = "''v2''" and new = cut_identifier and str = const_str and v' = "''v3''"]
  by (simp add: example_release_def cut_identifier_def)

text \<open>C9 as stated fails: for \<^verbatim>\<open>team_slug="acme"\<close>, \<^verbatim>\<open>dataset_slug="cats"\<close>, \<^verbatim>\<open>version="v2"\<close>
  the value of the property is a \<^verbatim>\<open>DatasetIdentifier\<close>, and a \<^verbatim>\<open>DatasetIdentifier\<close> is not the
  string \<^verbatim>\<open>acme/cats:v2\<close> (\<^verbatim>\<open>get_remote_dataset\<close> tells the two apart with
  \<^verbatim>\<open>isinstance\<close>).\<close>

theorem release_identifier_not_str_counterexample:
  "Release_identifier cut_identifier const_str example_release
     = Inr \<lparr>DatasetIdentifier.team_slug = JStr ''acme'', DatasetIdentifier.dataset_slug = JStr ''cats'',
             DatasetIdentifier.version = JStr ''v2''\<rparr> \<and>
   Ident \<lparr>DatasetIdentifier.team_slug = JStr ''acme'', DatasetIdentifier.dataset_slug = JStr ''cats'',
          DatasetIdentifier.version = JStr ''v2''\<rparr> \<noteq> Str ''acme/cats:v2''"
  by (simp add: Release_identifier_def format_value_def example_release_def cut_identifier_def)

section \<open>The client facade\<close>

text \<open>C6. \<^verbatim>\<open>get_remote_dataset\<close> takes a string, which it parses, or an identifier; \<open>i\<close> is
  that identifier with the client's default team in place of an empty team. Given the listing
  of the remote datasets of that team: when no dataset of the listing has the slug of \<open>i\<close>,
  the operation raises \<open>NotFound\<close> carrying \<open>i\<close>; when a dataset has it and none before it in
  the listing does, the operation returns that dataset, whatever comes after it.\<close>

theorem get_remote_dataset_first_match:
  assumes "(case arg of Str s \<Rightarrow> DatasetIdentifier_parse X s | Ident i \<Rightarrow> Inr i) = Inr p"
    and "i = (if py_truthy (DatasetIdentifier.team_slug p) then p
              else p\<lparr>DatasetIdentifier.team_slug := default_team c\<rparr>)"
    and "list_remote_datasets X c (DatasetIdentifier.team_slug i) = Inr datasets"
  shows
  "((\<forall>d \<in> set datasets. \<not> py_eq (slug d) (DatasetIdentifier.dataset_slug i)) \<longrightarrow>
      get_remote_dataset X c arg = Inl (NotFound (Ident i))) \<and>
   (\<forall>before d after.
      datasets = before @ d # after \<and>
      (\<forall>x \<in> set before. \<not> py_eq (slug x) (DatasetIdentifier.dataset_slug i)) \<and>
      py_eq (slug d) (DatasetIdentifier.dataset_slug i) \<longrightarrow>
      get_remote_dataset X c arg = Inr d)"
proof -
  have unfold: "get_remote_dataset X c arg =
      (case filter (\<lambda>dataset. py_eq (slug dataset) (DatasetIdentifier.dataset_slug i)) datasets of
         [] \<Rightarrow> Inl (NotFound (Ident i))
       | first # _ \<Rightarrow> Inr first)"
    using assms by (auto simp add: get_remote_dataset_def andthen_def Let_def)
  show ?thesis
  proof (intro conjI impI allI)
    assume "\<forall>d \<in> set datasets. \<not> py_eq (slug d) (DatasetIdentifier.dataset_slug i)"
    then have "filter (\<lambda>dataset. py_eq (slug dataset) (DatasetIdentifier.dataset_slug i)) datasets = []"
      by (simp add: filter_empty_conv)
    then show "get_remote_dataset X c arg = Inl (NotFound (Ident i))"
      by (simp add: unfold)
  next
    fix before d after
    assume h: "datasets = before @ d # after \<and>
      (\<forall>x \<in> set before. \<not> py_eq (slug x) (DatasetIdentifier.dataset_slug i)) \<and>
      py_eq (slug d) (DatasetIdentifier.dataset_slug i)"
    then have "filter (\<lambda>dataset. py_eq (slug dataset) (DatasetIdentifier.dataset_slug i)) before = []"
      by (simp add: filter_empty_conv)
    with h have "filter (\<lambda>dataset. py_eq (slug dataset) (DatasetIdentifier.dataset_slug i)) datasets
        = d # filter (\<lambda>dataset. py_eq (slug dataset) (DatasetIdentifier.dataset_slug i)) after"
      by simp
    then show "get_remote_dataset X c arg = Inr d"
      by (simp add: unfold)
  qed
qed

theorem get_remote_dataset_first_match_witness:
  "get_remote_dataset (example_externals listing) example_client (Str ''acme/cats'')
     = Inr (dataset_of 1 ''Cats'' ''cats'' 10 (1 / 2)) \<and>
   get_remote_dataset (example_externals listing) example_client (Ident birds)
     = Inl (NotFound (Ident (birds\<lparr>DatasetIdentifier.team_slug := JStr ''acme''\<rparr>)))"
proof -
  let ?X = "example_externals listing"
  let ?ds = "[dataset_of 3 ''Dogs'' ''dogs'' 4 1, dataset_of 1 ''Cats'' ''cats'' 10 (1 / 2),
              dataset_of 2 ''Cats again'' ''cats'' 0 0]"
  have a1: "(case Str ''acme/cats'' of Str s \<Rightarrow> DatasetIdentifier_parse ?X s | Ident i \<Rightarrow> Inr i)
              = Inr acme_cats"
    by (simp add: example_externals_sel cut_acme_cats)
  have a2: "acme_cats = (if py_truthy (DatasetIdentifier.team_slug acme_cats) then acme_cats
              else acme_cats\<lparr>DatasetIdentifier.team_slug := default_team example_client\<rparr>)"
    by (simp add: acme_cats_def)
  have a3: "list_remote_datasets ?X example_client (DatasetIdentifier.team_slug acme_cats) = Inr ?ds"
    by (simp add: acme_cats_def listing_example)
  have first: "get_remote_dataset ?X example_client (Str ''acme/cats'')
     = Inr (dataset_of 1 ''Cats'' ''cats'' 10 (1 / 2))"
    using get_remote_dataset_first_match [OF a1 a2 a3, THEN conjunct2, rule_format,
        of "[dataset_of 3 ''Dogs'' ''dogs'' 4 1]" "dataset_of 1 ''Cats'' ''cats'' 10 (1 / 2)"
           "[dataset_of 2 ''Cats again'' ''cats'' 0 0]"]
    by (simp add: acme_cats_def dataset_of_def)
  let ?b = "birds\<lparr>DatasetIdentifier.team_slug := JStr ''acme''\<rparr>"
  have b1: "(case Ident birds of Str s \<Rightarrow> DatasetIdentifier_parse ?X s | Ident i \<Rightarrow> Inr i) = Inr birds"
    by simp
  have b2: "?b = (if py_truthy (DatasetIdentifier.team_slug birds) then birds
              else birds\<lparr>DatasetIdentifier.team_slug := default_team example_client\<rparr>)"
    by (simp add: birds_def example_client_def)
  have b3: "list_remote_datasets ?X example_client (DatasetIdentifier.team_slug ?b) = Inr ?ds"
    by (simp add: listing_example)
  have none: "get_remote_dataset ?X example_client (Ident birds) = Inl (NotFound (Ident ?b))"
    using get_remote_dataset_first_match [OF b1 b2 b3, THEN conjunct1]
    by (simp add: birds_def dataset_of_def)
  show ?thesis
    using first none by simp
qed

text \<open>C8. \<^verbatim>\<open>from_api_key\<close> raises \<open>InvalidLogin\<close> whenever the token-info endpoint answers
  with a status other than 200. When it answers 200 with \<^verbatim>\<open>selected_team.id = 7\<close> and
  \<^verbatim>\<open>teams = [{id: 7, slug: "acme"}]\<close>, it returns a client whose default team is
  \<^verbatim>\<open>"acme"\<close>.\<close>

theorem from_api_key_login:
  assumes "token_info X key = r"
  shows
  "(status_code r \<noteq> 200 \<longrightarrow> from_api_key X key dir = Inl InvalidLogin) \<and>
   (status_code r = 200 \<and> parsed r = Some data \<and>
    py_getitem data ''selected_team'' = Inr selected \<and> py_getitem selected ''id'' = Inr (JInt 7) \<and>
    py_getitem data ''teams'' = Inr (JList [t]) \<and>
    py_getitem t ''id'' = Inr (JInt 7) \<and> py_getitem t ''slug'' = Inr (JStr ''acme'') \<longrightarrow>
      (\<exists>c. from_api_key X key dir = Inr c \<and> default_team c = JStr ''acme''))"
proof (intro conjI impI)
  assume "status_code r \<noteq> 200"
  then show "from_api_key X key dir = Inl InvalidLogin"
    using assms by (simp add: from_api_key_def Let_def)
next
  assume h: "status_code r = 200 \<and> parsed r = Some data \<and>
    py_getitem data ''selected_team'' = Inr selected \<and> py_getitem selected ''id'' = Inr (JInt 7) \<and>
    py_getitem data ''teams'' = Inr (JList [t]) \<and>
    py_getitem t ''id'' = Inr (JInt 7) \<and> py_getitem t ''slug'' = Inr (JStr ''acme'')"
  then have m: "matching_slugs (JInt 7) [t] = Inr [JStr ''acme'']"
    by (simp add: andthen_def)
  have "from_api_key X key dir =
      Inr (Client_init X
             (Config_set_global X
                (Config_set_team X (Config_new X) (JStr ''acme'') key
                   (case dir of None \<Rightarrow> home_datasets_dir X | Some d \<Rightarrow> d))
                (default_api_url X) (default_base_url X))
             (JStr ''acme''))"
    using assms h m by (simp add: from_api_key_def Let_def andthen_def response_json_def)
  then show "\<exists>c. from_api_key X key dir = Inr c \<and> default_team c = JStr ''acme''"
    by (simp add: default_team_Client_init)
qed

theorem from_api_key_login_witness:
  "from_api_key (example_externals denied) ''k1'' None = Inl InvalidLogin \<and>
   (\<exists>c. from_api_key (example_externals token_ok) ''k1'' None = Inr c \<and> default_team c = JStr ''acme'')"
  using from_api_key_login [where X = "example_externals denied" and key = "''k1''" and r = denied
      and dir = None]
    from_api_key_login [where X = "example_externals token_ok" and key = "''k1''" and r = token_ok
      and dir = None
      and data = "JObj [(''selected_team'', JObj [(''id'', JInt 7)]),
                        (''teams'', JList [JObj [(''id'', JInt 7), (''slug'', JStr ''acme'')]])]"
      and selected = "JObj [(''id'', JInt 7)]"
      and t = "JObj [(''id'', JInt 7), (''slug'', JStr ''acme'')]"]
  by (simp add: token_info_example denied_def token_ok_def)

text \<open>C10. When the token-info endpoint answers 200 and no team of the \<^verbatim>\<open>teams\<close> list has an
  \<^verbatim>\<open>id\<close> equal to \<^verbatim>\<open>selected_team.id\<close>, the list of matching slugs is empty and taking its
  element 0 raises IndexError: \<^verbatim>\<open>from_api_key\<close> fails with that error, which is neither
  \<open>InvalidLogin\<close> nor another of the named kinds.\<close>

theorem from_api_key_no_matching_team:
  assumes "token_info X key = r"
    and "status_code r = 200"
    and "parsed r = Some data"
    and "py_getitem data ''selected_team'' = Inr selected"
    and "py_getitem selected ''id'' = Inr team_id"
    and "py_getitem data ''teams'' = Inr (JList ts)"
    and "\<forall>t \<in> set ts. \<exists>i. py_getitem t ''id'' = Inr i \<and> \<not> py_eq i team_id"
  shows "from_api_key X key dir = Inl IndexError"
  using assms matching_slugs_none [OF assms(7)]
  by (simp add: from_api_key_def Let_def andthen_def response_json_def)

theorem from_api_key_no_matching_team_witness:
  "from_api_key (example_externals token_other_team) ''k1'' None = Inl IndexError"
proof -
  have none: "\<forall>t \<in> set [JObj [(''id'', JInt 8), (''slug'', JStr ''other'')]].
          \<exists>i. py_getitem t ''id'' = Inr i \<and> \<not> py_eq i (JInt 7)"
    by simp
  show ?thesis
    using from_api_key_no_matching_team [where X = "example_externals token_other_team"
        and key = "''k1''" and r = token_other_team and dir = None
        and data = "JObj [(''selected_team'', JObj [(''id'', JInt 7)]),
                          (''teams'', JList [JObj [(''id'', JInt 8), (''slug'', JStr ''other'')]])]"
        and selected = "JObj [(''id'', JInt 7)]" and team_id = "JInt 7"
        and ts = "[JObj [(''id'', JInt 8), (''slug'', JStr ''other'')]]", OF _ _ _ _ _ _ none]
    by (simp add: token_info_example token_other_team_def)
qed

end
